theory Spec2Isabelle
  imports Main "HOL-Library.Word"
begin

unbundle bit_operations_syntax

section \<open>The shared item of libpassim (passim-item.c)\<close>

text \<open>
  A \<open>gchar *\<close> is either \<open>NULL\<close> or a C string: \<open>string option\<close>, with \<open>None\<close> for
  \<open>NULL\<close>. A \<open>guint32\<close> is a 32-bit word. A \<open>GFile\<close> made by \<open>g_file_new_for_path\<close> is
  the path it was made for, and a \<open>GDateTime\<close> is a point in time counted in
  microseconds.
\<close>

type_synonym guint32 = "32 word"

datatype GFile = GFile string

datatype GDateTime = GDateTime int

record PassimItemPrivate =
  hash :: "string option"
  basename :: "string option"
  max_age :: guint32
  share_limit :: guint32
  share_count :: guint32
  file_obj :: "GFile option"
  ctime :: "GDateTime option"

subsection \<open>GLib string helpers\<close>

text \<open>\<open>strcmp\<close> of the C library: the sign of the first differing byte.\<close>

fun strcmp :: "string \<Rightarrow> string \<Rightarrow> int" where
  "strcmp [] [] = 0"
| "strcmp [] (y # ys) = - 1"
| "strcmp (x # xs) [] = 1"
| "strcmp (x # xs) (y # ys) =
     (if x = y then strcmp xs ys
      else if (of_char x :: nat) < of_char y then - 1 else 1)"

text \<open>\<open>g_strcmp0\<close>: \<open>strcmp\<close> that takes \<open>NULL\<close>, which sorts before every string.\<close>

definition g_strcmp0 :: "string option \<Rightarrow> string option \<Rightarrow> int" where
  "g_strcmp0 str1 str2 =
     (case str1 of
        None \<Rightarrow> (case str2 of None \<Rightarrow> 0 | Some b \<Rightarrow> - 1)
      | Some a \<Rightarrow> (case str2 of None \<Rightarrow> 1 | Some b \<Rightarrow> strcmp a b))"

text \<open>\<open>g_strdup\<close>: a copy of the string, \<open>NULL\<close> for \<open>NULL\<close>.\<close>

definition g_strdup :: "string option \<Rightarrow> string option" where
  "g_strdup str = str"

text \<open>
  \<open>g_path_get_basename\<close> (with \<open>/\<close> as the directory separator): \<open>.\<close> for the
  empty string, \<open>/\<close> for a string of separators only, otherwise what lies between the
  last separator before the trailing ones and those trailing separators.
\<close>

definition g_path_get_basename :: "string \<Rightarrow> string" where
  "g_path_get_basename file_name =
     (if file_name = [] then ''.''
      else (let stripped = dropWhile (\<lambda>c. c = CHR ''/'') (rev file_name)
            in if stripped = [] then ''/''
               else rev (takeWhile (\<lambda>c. c \<noteq> CHR ''/'') stripped)))"

subsection \<open>Construction\<close>

text \<open>\<open>g_object_new\<close> hands \<open>passim_item_init\<close> private data filled with zeros.\<close>

definition zeroed_private :: PassimItemPrivate where
  "zeroed_private =
     \<lparr>hash = None, basename = None, max_age = 0, share_limit = 0, share_count = 0,
      file_obj = None, ctime = None\<rparr>"

definition passim_item_init :: "PassimItemPrivate \<Rightarrow> PassimItemPrivate" where
  "passim_item_init priv = priv\<lparr>max_age := 24 * 60 * 60, share_limit := 5\<rparr>"

definition passim_item_new :: PassimItemPrivate where
  "passim_item_new = passim_item_init zeroed_private"

subsection \<open>Accessors\<close>

definition passim_item_get_hash :: "PassimItemPrivate \<Rightarrow> string option" where
  "passim_item_get_hash priv = hash priv"

definition passim_item_set_hash :: "PassimItemPrivate \<Rightarrow> string option \<Rightarrow> PassimItemPrivate" where
  "passim_item_set_hash priv h =
     (if g_strcmp0 (hash priv) h = 0 then priv else priv\<lparr>hash := g_strdup h\<rparr>)"

definition passim_item_get_basename :: "PassimItemPrivate \<Rightarrow> string option" where
  "passim_item_get_basename priv = basename priv"

definition passim_item_set_basename :: "PassimItemPrivate \<Rightarrow> string option \<Rightarrow> PassimItemPrivate" where
  "passim_item_set_basename priv b =
     (if g_strcmp0 (basename priv) b = 0 then priv else priv\<lparr>basename := g_strdup b\<rparr>)"

definition passim_item_get_max_age :: "PassimItemPrivate \<Rightarrow> guint32" where
  "passim_item_get_max_age priv = max_age priv"

definition passim_item_set_max_age :: "PassimItemPrivate \<Rightarrow> guint32 \<Rightarrow> PassimItemPrivate" where
  "passim_item_set_max_age priv v = priv\<lparr>max_age := v\<rparr>"

definition passim_item_get_share_limit :: "PassimItemPrivate \<Rightarrow> guint32" where
  "passim_item_get_share_limit priv = share_limit priv"

definition passim_item_set_share_limit :: "PassimItemPrivate \<Rightarrow> guint32 \<Rightarrow> PassimItemPrivate" where
  "passim_item_set_share_limit priv v = priv\<lparr>share_limit := v\<rparr>"

definition passim_item_get_share_count :: "PassimItemPrivate \<Rightarrow> guint32" where
  "passim_item_get_share_count priv = share_count priv"

definition passim_item_set_share_count :: "PassimItemPrivate \<Rightarrow> guint32 \<Rightarrow> PassimItemPrivate" where
  "passim_item_set_share_count priv v = priv\<lparr>share_count := v\<rparr>"

definition passim_item_get_file :: "PassimItemPrivate \<Rightarrow> GFile option" where
  "passim_item_get_file priv = file_obj priv"

text \<open>\<open>g_set_object\<close> stores the new object; only reference counts depend on the old one.\<close>

definition passim_item_set_file :: "PassimItemPrivate \<Rightarrow> GFile option \<Rightarrow> PassimItemPrivate" where
  "passim_item_set_file priv f = priv\<lparr>file_obj := f\<rparr>"

definition passim_item_get_ctime :: "PassimItemPrivate \<Rightarrow> GDateTime option" where
  "passim_item_get_ctime priv = ctime priv"

definition passim_item_set_ctime :: "PassimItemPrivate \<Rightarrow> GDateTime option \<Rightarrow> PassimItemPrivate" where
  "passim_item_set_ctime priv t =
     (if ctime priv = t then priv
      else (let priv1 = (if ctime priv \<noteq> None then priv\<lparr>ctime := None\<rparr> else priv)
            in if t \<noteq> None then priv1\<lparr>ctime := t\<rparr> else priv1))"

subsection \<open>GLib checksums: SHA-256\<close>

text \<open>
  \<open>g_compute_checksum_for_data (G_CHECKSUM_SHA256, data, length)\<close> is the SHA-256 of
  FIPS 180-4 over the bytes, printed as lowercase hexadecimal digits.
\<close>

type_synonym guint8 = "8 word"

definition rotr :: "nat \<Rightarrow> guint32 \<Rightarrow> guint32" where
  "rotr n x = drop_bit n x OR push_bit (32 - n) x"

definition Ch :: "guint32 \<Rightarrow> guint32 \<Rightarrow> guint32 \<Rightarrow> guint32" where
  "Ch x y z = (x AND y) XOR (NOT x AND z)"

definition Maj :: "guint32 \<Rightarrow> guint32 \<Rightarrow> guint32 \<Rightarrow> guint32" where
  "Maj x y z = (x AND y) XOR (x AND z) XOR (y AND z)"

definition Sigma0 :: "guint32 \<Rightarrow> guint32" where
  "Sigma0 x = rotr 2 x XOR rotr 13 x XOR rotr 22 x"

definition Sigma1 :: "guint32 \<Rightarrow> guint32" where
  "Sigma1 x = rotr 6 x XOR rotr 11 x XOR rotr 25 x"

definition sigma0 :: "guint32 \<Rightarrow> guint32" where
  "sigma0 x = rotr 7 x XOR rotr 18 x XOR drop_bit 3 x"

definition sigma1 :: "guint32 \<Rightarrow> guint32" where
  "sigma1 x = rotr 17 x XOR rotr 19 x XOR drop_bit 10 x"

text \<open>The 64 round constants, eight to a row.\<close>

definition sha256_K :: "guint32 list" where
  "sha256_K =
     [0x428a2f98, 0x71374491, 0xb5c0fbcf, 0xe9b5dba5, 0x3956c25b, 0x59f111f1, 0x923f82a4, 0xab1c5ed5]
     @ [0xd807aa98, 0x12835b01, 0x243185be, 0x550c7dc3, 0x72be5d74, 0x80deb1fe, 0x9bdc06a7, 0xc19bf174]
     @ [0xe49b69c1, 0xefbe4786, 0x0fc19dc6, 0x240ca1cc, 0x2de92c6f, 0x4a7484aa, 0x5cb0a9dc, 0x76f988da]
     @ [0x983e5152, 0xa831c66d, 0xb00327c8, 0xbf597fc7, 0xc6e00bf3, 0xd5a79147, 0x06ca6351, 0x14292967]
     @ [0x27b70a85, 0x2e1b2138, 0x4d2c6dfc, 0x53380d13, 0x650a7354, 0x766a0abb, 0x81c2c92e, 0x92722c85]
     @ [0xa2bfe8a1, 0xa81a664b, 0xc24b8b70, 0xc76c51a3, 0xd192e819, 0xd6990624, 0xf40e3585, 0x106aa070]
     @ [0x19a4c116, 0x1e376c08, 0x2748774c, 0x34b0bcb5, 0x391c0cb3, 0x4ed8aa4a, 0x5b9cca4f, 0x682e6ff3]
     @ [0x748f82ee, 0x78a5636f, 0x84c87814, 0x8cc70208, 0x90befffa, 0xa4506ceb, 0xbef9a3f7, 0xc67178f2]"

definition sha256_init :: "guint32 list" where
  "sha256_init =
    [0x6a09e667, 0xbb67ae85, 0x3c6ef372, 0xa54ff53a, 0x510e527f, 0x9b05688c, 0x1f83d9ab, 0x5be0cd19]"

definition bytes_of_word32 :: "guint32 \<Rightarrow> guint8 list" where
  "bytes_of_word32 w = [ucast (drop_bit 24 w), ucast (drop_bit 16 w), ucast (drop_bit 8 w), ucast w]"

definition bytes_of_word64 :: "64 word \<Rightarrow> guint8 list" where
  "bytes_of_word64 w = map (\<lambda>i. ucast (drop_bit (8 * (7 - i)) w)) [0..<8]"

text \<open>Padding: the byte 0x80, zeros up to 56 modulo 64, the bit length in 64 bits.\<close>

definition sha256_pad :: "guint8 list \<Rightarrow> guint8 list" where
  "sha256_pad msg =
     msg @ [0x80] @ replicate ((119 - length msg mod 64) mod 64) 0
       @ bytes_of_word64 (of_nat (8 * length msg))"

fun be_words :: "guint8 list \<Rightarrow> guint32 list" where
  "be_words (a # b # c # d # rest) =
     (push_bit 24 (ucast a) OR push_bit 16 (ucast b) OR push_bit 8 (ucast c) OR ucast d)
       # be_words rest"
| "be_words _ = []"

text \<open>The message schedule; \<open>ws\<close> holds the words computed so far, the latest first.\<close>

fun sha256_schedule :: "nat \<Rightarrow> guint32 list \<Rightarrow> guint32 list" where
  "sha256_schedule 0 ws = rev ws"
| "sha256_schedule (Suc n) ws =
     sha256_schedule n ((sigma1 (ws ! 1) + ws ! 6 + sigma0 (ws ! 14) + ws ! 15) # ws)"

fun sha256_round :: "guint32 list \<Rightarrow> guint32 \<times> guint32 \<Rightarrow> guint32 list" where
  "sha256_round [a, b, c, d, e, f, g, h] (k, w) =
     (let t1 = h + Sigma1 e + Ch e f g + k + w;
          t2 = Sigma0 a + Maj a b c
      in [t1 + t2, a, b, c, d + t1, e, f, g])"
| "sha256_round s _ = s"

definition sha256_block :: "guint32 list \<Rightarrow> guint8 list \<Rightarrow> guint32 list" where
  "sha256_block hs block =
     map2 (+) hs
       (foldl sha256_round hs (zip sha256_K (sha256_schedule 48 (rev (be_words block)))))"

function sha256_blocks :: "guint32 list \<Rightarrow> guint8 list \<Rightarrow> guint32 list" where
  "sha256_blocks hs bytes =
     (if length bytes < 64 then hs
      else sha256_blocks (sha256_block hs (take 64 bytes)) (drop 64 bytes))"
  by pat_completeness auto
termination
  by (relation "measure (\<lambda>(hs, bytes). length bytes)") auto

definition sha256 :: "guint8 list \<Rightarrow> guint8 list" where
  "sha256 msg = concat (map bytes_of_word32 (sha256_blocks sha256_init (sha256_pad msg)))"

definition hex_digit :: "nat \<Rightarrow> char" where
  "hex_digit n = ''0123456789abcdef'' ! n"

definition hex_of_bytes :: "guint8 list \<Rightarrow> string" where
  "hex_of_bytes bs =
     concat (map (\<lambda>b. [hex_digit (unat b div 16), hex_digit (unat b mod 16)]) bs)"

definition g_compute_checksum_for_data_SHA256 :: "guint8 list \<Rightarrow> string" where
  "g_compute_checksum_for_data_SHA256 data = hex_of_bytes (sha256 data)"

subsection \<open>The file system as GLib shows it\<close>

text \<open>
  A \<open>GError\<close> is a domain and a code. The two calls that reach the disk are parameters
  of the model: \<open>g_file_query_info\<close> for the attribute \<open>time::created\<close>, which fails or
  returns a \<open>GFileInfo\<close>, and \<open>g_file_get_contents\<close>, which fails or returns every byte
  of the file. A \<open>GFileInfo\<close> holds the creation time only when the file system reports
  one: \<open>g_file_info_get_creation_date_time\<close> returns \<open>NULL\<close> otherwise.
\<close>

datatype GErrorDomain = G_IO_ERROR | G_FILE_ERROR

datatype GError = GError GErrorDomain nat

datatype GFileInfo = GFileInfo "GDateTime option"

record filesystem =
  g_file_query_info :: "GFile \<Rightarrow> GError + GFileInfo"
  g_file_get_contents :: "string \<Rightarrow> GError + guint8 list"

definition g_file_new_for_path :: "string \<Rightarrow> GFile" where
  "g_file_new_for_path path = GFile path"

fun g_file_info_get_creation_date_time :: "GFileInfo \<Rightarrow> GDateTime option" where
  "g_file_info_get_creation_date_time (GFileInfo created) = created"

subsection \<open>Loading an item from a file\<close>

definition passim_compute_checksum_for_filename :: "filesystem \<Rightarrow> string \<Rightarrow> GError + string" where
  "passim_compute_checksum_for_filename fs filename =
     (case g_file_get_contents fs filename of
        Inl err \<Rightarrow> Inl err
      | Inr buf \<Rightarrow> Inr (g_compute_checksum_for_data_SHA256 buf))"

text \<open>
  The result is the return value (\<open>Inr ()\<close> for \<open>TRUE\<close>, \<open>Inl\<close> the error set for
  \<open>FALSE\<close>) and the private data as the call leaves it, also when it fails.
\<close>

definition passim_item_load_filename ::
  "filesystem \<Rightarrow> PassimItemPrivate \<Rightarrow> string \<Rightarrow> (GError + unit) \<times> PassimItemPrivate" where
  "passim_item_load_filename fs priv filename =
     (let file = g_file_new_for_path filename;
          priv1 = passim_item_set_file priv (Some file)
      in case g_file_query_info fs file of
           Inl err \<Rightarrow> (Inl err, priv1)
         | Inr info \<Rightarrow>
             (let priv2 = priv1\<lparr>ctime := g_file_info_get_creation_date_time info\<rparr>;
                  priv3 = (if basename priv2 = None
                           then priv2\<lparr>basename := Some (g_path_get_basename filename)\<rparr>
                           else priv2)
              in if hash priv3 = None
                 then (case passim_compute_checksum_for_filename fs filename of
                         Inl err \<Rightarrow> (Inl err, priv3\<lparr>hash := None\<rparr>)
                       | Inr h \<Rightarrow> (Inr (), priv3\<lparr>hash := Some h\<rparr>))
                 else (Inr (), priv3)))"

subsection \<open>Serialising to and from a GVariant\<close>

text \<open>
  The values a vardict (\<open>a{sv}\<close>) entry can carry, as far as the item needs them, and the
  vardict as the list of its entries in order.
\<close>

datatype GVariant = GVString string | GVUint32 guint32 | GVBoolean bool

type_synonym vardict = "(string \<times> GVariant) list"

text \<open>
  \<open>g_utf8_validate\<close> on the bytes of a C string: every character is a well-formed
  UTF-8 sequence. A lead byte below 0xc2 or above 0xf4 is refused, as are overlong forms
  (0xe0 and 0xf0 need a second byte from 0xa0 and 0x90), surrogates (0xed needs a second
  byte below 0xa0) and code points above U+10FFFF (0xf4 needs a second byte below 0x90).
\<close>

definition byte_in :: "nat \<Rightarrow> nat \<Rightarrow> nat \<Rightarrow> bool" where
  "byte_in lo hi b = (lo \<le> b \<and> b \<le> hi)"

fun utf8_validate_bytes :: "nat list \<Rightarrow> bool" where
  "utf8_validate_bytes [] = True"
| "utf8_validate_bytes (b # bs) =
     (if b < 0x80 then utf8_validate_bytes bs
      else if b < 0xc2 then False
      else if b < 0xe0 then
        (case bs of
           c1 # rest \<Rightarrow> byte_in 0x80 0xbf c1 \<and> utf8_validate_bytes rest
         | _ \<Rightarrow> False)
      else if b < 0xf0 then
        (case bs of
           c1 # c2 # rest \<Rightarrow>
             (if b = 0xe0 then byte_in 0xa0 0xbf c1
              else if b = 0xed then byte_in 0x80 0x9f c1
              else byte_in 0x80 0xbf c1)
             \<and> byte_in 0x80 0xbf c2 \<and> utf8_validate_bytes rest
         | _ \<Rightarrow> False)
      else if b < 0xf5 then
        (case bs of
           c1 # c2 # c3 # rest \<Rightarrow>
             (if b = 0xf0 then byte_in 0x90 0xbf c1
              else if b = 0xf4 then byte_in 0x80 0x8f c1
              else byte_in 0x80 0xbf c1)
             \<and> byte_in 0x80 0xbf c2 \<and> byte_in 0x80 0xbf c3 \<and> utf8_validate_bytes rest
         | _ \<Rightarrow> False)
      else False)"

definition g_utf8_validate :: "string \<Rightarrow> bool" where
  "g_utf8_validate str = utf8_validate_bytes (map of_char str)"

text \<open>
  \<open>g_variant_new_string\<close> requires a string that is valid UTF-8: on \<open>NULL\<close> and on
  other bytes its checks fail and it returns \<open>NULL\<close>.
\<close>

definition g_variant_new_string :: "string option \<Rightarrow> GVariant option" where
  "g_variant_new_string str =
     (case str of
        None \<Rightarrow> None
      | Some s \<Rightarrow> if g_utf8_validate s then Some (GVString s) else None)"

definition g_variant_new_uint32 :: "guint32 \<Rightarrow> GVariant option" where
  "g_variant_new_uint32 v = Some (GVUint32 v)"

text \<open>
  The builder holds the entries added so far. \<open>g_variant_builder_add\<close> with \<open>{sv}\<close>
  cannot box a \<open>NULL\<close> value: that call is refused and adds nothing, and the builder goes
  on with the entries it has. \<open>g_variant_builder_end\<close> returns them as the dictionary.
\<close>

type_synonym GVariantBuilder = vardict

definition g_variant_builder_init :: GVariantBuilder where
  "g_variant_builder_init = []"

definition g_variant_builder_add ::
  "GVariantBuilder \<Rightarrow> string \<Rightarrow> GVariant option \<Rightarrow> GVariantBuilder" where
  "g_variant_builder_add builder key val =
     (case val of None \<Rightarrow> builder | Some v \<Rightarrow> builder @ [(key, v)])"

definition g_variant_builder_end :: "GVariantBuilder \<Rightarrow> vardict" where
  "g_variant_builder_end builder = builder"

definition passim_item_to_variant :: "PassimItemPrivate \<Rightarrow> vardict" where
  "passim_item_to_variant priv =
     (let builder = g_variant_builder_init;
          builder = g_variant_builder_add builder ''filename'' (g_variant_new_string (basename priv));
          builder = g_variant_builder_add builder ''hash'' (g_variant_new_string (hash priv));
          builder = g_variant_builder_add builder ''max-age'' (g_variant_new_uint32 (max_age priv));
          builder = g_variant_builder_add builder ''share-limit''
                      (g_variant_new_uint32 (share_limit priv));
          builder = g_variant_builder_add builder ''share-count''
                      (g_variant_new_uint32 (share_count priv))
      in g_variant_builder_end builder)"

text \<open>
  \<open>g_variant_dup_string\<close> and \<open>g_variant_get_uint32\<close> check the type of the value: on
  another type they return \<open>NULL\<close> and 0.
\<close>

fun g_variant_dup_string :: "GVariant \<Rightarrow> string option" where
  "g_variant_dup_string (GVString s) = Some s"
| "g_variant_dup_string _ = None"

fun g_variant_get_uint32 :: "GVariant \<Rightarrow> guint32" where
  "g_variant_get_uint32 (GVUint32 v) = v"
| "g_variant_get_uint32 _ = 0"

text \<open>The body of the loop of \<open>passim_item_from_variant\<close>, for one entry.\<close>

definition from_variant_entry :: "PassimItemPrivate \<Rightarrow> string \<times> GVariant \<Rightarrow> PassimItemPrivate" where
  "from_variant_entry priv entry =
     (let key = fst entry; val = snd entry;
          priv = (if g_strcmp0 (Some key) (Some ''filename'') = 0
                  then priv\<lparr>basename := g_variant_dup_string val\<rparr> else priv);
          priv = (if g_strcmp0 (Some key) (Some ''hash'') = 0
                  then priv\<lparr>hash := g_variant_dup_string val\<rparr> else priv);
          priv = (if g_strcmp0 (Some key) (Some ''max-age'') = 0
                  then priv\<lparr>max_age := g_variant_get_uint32 val\<rparr> else priv);
          priv = (if g_strcmp0 (Some key) (Some ''share-limit'') = 0
                  then priv\<lparr>share_limit := g_variant_get_uint32 val\<rparr> else priv);
          priv = (if g_strcmp0 (Some key) (Some ''share-count'') = 0
                  then priv\<lparr>share_count := g_variant_get_uint32 val\<rparr> else priv)
      in priv)"

fun from_variant_loop :: "PassimItemPrivate \<Rightarrow> vardict \<Rightarrow> PassimItemPrivate" where
  "from_variant_loop priv [] = priv"
| "from_variant_loop priv (entry # iter) = from_variant_loop (from_variant_entry priv entry) iter"

definition passim_item_from_variant :: "vardict \<Rightarrow> PassimItemPrivate" where
  "passim_item_from_variant variant = from_variant_loop passim_item_new variant"

subsection \<open>The decoder as the specification words it\<close>

text \<open>
  The value a vardict gives for a key: that of its last entry with the key. A recognised
  key is well typed when it carries a string (\<open>filename\<close>, \<open>hash\<close>) or an unsigned 32-bit
  number (\<open>max-age\<close>, \<open>share-limit\<close>, \<open>share-count\<close>). \<open>from_dict_spec\<close> starts from
  the defaults and overwrites the field of every recognised key that is present.
\<close>

definition vardict_lookup :: "vardict \<Rightarrow> string \<Rightarrow> GVariant option" where
  "vardict_lookup d key = map_of (rev d) key"

fun well_typed_entry :: "string \<times> GVariant \<Rightarrow> bool" where
  "well_typed_entry (key, GVString s) = (key \<notin> set [''max-age'', ''share-limit'', ''share-count''])"
| "well_typed_entry (key, GVUint32 v) = (key \<notin> set [''filename'', ''hash''])"
| "well_typed_entry (key, GVBoolean b) =
     (key \<notin> set [''filename'', ''hash'', ''max-age'', ''share-limit'', ''share-count''])"

definition well_typed :: "vardict \<Rightarrow> bool" where
  "well_typed d = list_all well_typed_entry d"

definition spec_string :: "vardict \<Rightarrow> string \<Rightarrow> string option \<Rightarrow> string option" where
  "spec_string d key dflt =
     (case vardict_lookup d key of Some (GVString s) \<Rightarrow> Some s | _ \<Rightarrow> dflt)"

definition spec_uint32 :: "vardict \<Rightarrow> string \<Rightarrow> guint32 \<Rightarrow> guint32" where
  "spec_uint32 d key dflt =
     (case vardict_lookup d key of Some (GVUint32 v) \<Rightarrow> v | _ \<Rightarrow> dflt)"

definition from_dict_spec :: "vardict \<Rightarrow> PassimItemPrivate" where
  "from_dict_spec d =
     \<lparr>hash = spec_string d ''hash'' None,
      basename = spec_string d ''filename'' None,
      max_age = spec_uint32 d ''max-age'' 86400,
      share_limit = spec_uint32 d ''share-limit'' 5,
      share_count = spec_uint32 d ''share-count'' 0,
      file_obj = None,
      ctime = None\<rparr>"

subsection \<open>Example inputs\<close>

text \<open>
  The five bytes \<open>hello\<close>; a file system whose only file is \<open>/tmp/hello.txt\<close> with that
  content and a creation time (error codes: \<open>G_IO_ERROR_NOT_FOUND\<close> is 1,
  \<open>G_FILE_ERROR_NOENT\<close> is 4); the same file on a file system that reports no creation
  time; and the keys the decoder looks for.
\<close>

definition hello_bytes :: "guint8 list" where
  "hello_bytes = map of_char ''hello''"

definition fs_hello :: filesystem where
  "fs_hello =
     \<lparr>g_file_query_info = (\<lambda>file. if file = GFile ''/tmp/hello.txt''
          then Inr (GFileInfo (Some (GDateTime 1700000000000000)))
          else Inl (GError G_IO_ERROR 1)),
      g_file_get_contents = (\<lambda>filename. if filename = ''/tmp/hello.txt''
          then Inr hello_bytes else Inl (GError G_FILE_ERROR 4))\<rparr>"

definition fs_no_btime :: filesystem where
  "fs_no_btime =
     \<lparr>g_file_query_info = (\<lambda>file. if file = GFile ''/tmp/hello.txt''
          then Inr (GFileInfo None)
          else Inl (GError G_IO_ERROR 1)),
      g_file_get_contents = (\<lambda>filename. if filename = ''/tmp/hello.txt''
          then Inr hello_bytes else Inl (GError G_FILE_ERROR 4))\<rparr>"

definition recognised_keys :: "string list" where
  "recognised_keys = [''filename'', ''hash'', ''max-age'', ''share-limit'', ''share-count'']"

definition item_abc :: PassimItemPrivate where
  "item_abc = passim_item_new\<lparr>hash := Some ''abc'', basename := Some ''f.bin''\<rparr>"

text \<open>
  An item whose basename is the two bytes 0x63 0xe9, \<open>c\<close> and an e acute in
  ISO 8859-1: a file name a disk can hold, and not UTF-8.
\<close>

definition item_latin1 :: PassimItemPrivate where
  "item_latin1 = passim_item_new\<lparr>hash := Some ''abc'', basename := Some [CHR 0x63, CHR 0xE9]\<rparr>"

declare sha256_blocks.simps [simp del]

section \<open>Helper lemmas\<close>

subsection \<open>Strings\<close>

lemma strcmp_zero_iff: "strcmp a b = 0 \<longleftrightarrow> a = b"
  by (induction a b rule: strcmp.induct) simp_all

lemma g_strcmp0_zero_iff: "g_strcmp0 a b = 0 \<longleftrightarrow> a = b"
  by (simp add: g_strcmp0_def strcmp_zero_iff split: option.splits)

lemma new_fields:
  "hash passim_item_new = None" "basename passim_item_new = None"
  "max_age passim_item_new = 86400" "share_limit passim_item_new = 5"
  "share_count passim_item_new = 0" "file_obj passim_item_new = None"
  "ctime passim_item_new = None"
  by (simp_all add: passim_item_new_def passim_item_init_def zeroed_private_def)

lemma basename_final_component:
  assumes "name \<noteq> []" and "CHR ''/'' \<notin> set name"
  shows "g_path_get_basename (dir @ ''/'' @ name) = name"
    and "g_path_get_basename name = name"
proof -
  have hd: "hd (rev name) \<noteq> CHR ''/''"
    using assms by (metis hd_rev last_in_set)
  have drop: "dropWhile (\<lambda>c. c = CHR ''/'') (rev name @ ys) = rev name @ ys" for ys
    using assms(1) hd by (cases "rev name") auto
  have take: "takeWhile (\<lambda>c. c \<noteq> CHR ''/'') (rev name @ CHR ''/'' # ys) = rev name" for ys
    using assms(2) by (auto simp add: takeWhile_tail)
  have take2: "takeWhile (\<lambda>c. c \<noteq> CHR ''/'') (rev name) = rev name"
    using assms(2) by (auto simp add: takeWhile_eq_all_conv)
  show "g_path_get_basename (dir @ ''/'' @ name) = name"
    using assms(1) by (simp add: g_path_get_basename_def Let_def drop take)
  show "g_path_get_basename name = name"
    using assms(1) drop [of "[]"] by (simp add: g_path_get_basename_def Let_def take2)
qed

subsection \<open>The codec\<close>

lemma to_variant_shape:
  "passim_item_to_variant priv =
     (case g_variant_new_string (basename priv) of None \<Rightarrow> [] | Some v \<Rightarrow> [(''filename'', v)])
     @ (case g_variant_new_string (hash priv) of None \<Rightarrow> [] | Some v \<Rightarrow> [(''hash'', v)])
     @ [(''max-age'', GVUint32 (max_age priv)),
        (''share-limit'', GVUint32 (share_limit priv)),
        (''share-count'', GVUint32 (share_count priv))]"
  by (simp add: passim_item_to_variant_def g_variant_builder_init_def g_variant_builder_add_def
      g_variant_builder_end_def g_variant_new_uint32_def split: option.splits)

lemma to_variant_set:
  "hash priv = Some h \<Longrightarrow> basename priv = Some b \<Longrightarrow> g_utf8_validate h \<Longrightarrow> g_utf8_validate b \<Longrightarrow>
   passim_item_to_variant priv =
     [(''filename'', GVString b), (''hash'', GVString h),
      (''max-age'', GVUint32 (max_age priv)),
      (''share-limit'', GVUint32 (share_limit priv)),
      (''share-count'', GVUint32 (share_count priv))]"
  by (simp add: to_variant_shape g_variant_new_string_def)



lemma utf8_abc: "g_utf8_validate ''abc''" "g_utf8_validate ''f.bin''"
  by (simp_all add: g_utf8_validate_def)

lemma not_utf8_latin1: "\<not> g_utf8_validate [CHR 0x63, CHR 0xE9]"
  by (simp add: g_utf8_validate_def)

lemma from_variant_five:
  "passim_item_from_variant
     [(''filename'', GVString b), (''hash'', GVString h), (''max-age'', GVUint32 m),
      (''share-limit'', GVUint32 l), (''share-count'', GVUint32 c)]
   = \<lparr>hash = Some h, basename = Some b, max_age = m, share_limit = l, share_count = c,
      file_obj = None, ctime = None\<rparr>"
  by (simp add: passim_item_from_variant_def from_variant_entry_def g_strcmp0_zero_iff
      passim_item_new_def passim_item_init_def zeroed_private_def)

lemma entry_hash:
  "hash (from_variant_entry priv (k, v)) = (if k = ''hash'' then g_variant_dup_string v else hash priv)"
  by (simp add: from_variant_entry_def g_strcmp0_zero_iff Let_def)

lemma entry_basename:
  "basename (from_variant_entry priv (k, v)) = (if k = ''filename'' then g_variant_dup_string v else basename priv)"
  by (simp add: from_variant_entry_def g_strcmp0_zero_iff Let_def)

lemma entry_max_age:
  "max_age (from_variant_entry priv (k, v)) = (if k = ''max-age'' then g_variant_get_uint32 v else max_age priv)"
  by (simp add: from_variant_entry_def g_strcmp0_zero_iff Let_def)

lemma entry_share_limit:
  "share_limit (from_variant_entry priv (k, v)) = (if k = ''share-limit'' then g_variant_get_uint32 v else share_limit priv)"
  by (simp add: from_variant_entry_def g_strcmp0_zero_iff Let_def)

lemma entry_share_count:
  "share_count (from_variant_entry priv (k, v)) = (if k = ''share-count'' then g_variant_get_uint32 v else share_count priv)"
  by (simp add: from_variant_entry_def g_strcmp0_zero_iff Let_def)

lemma entry_file_ctime:
  "file_obj (from_variant_entry priv e) = file_obj priv \<and> ctime (from_variant_entry priv e) = ctime priv"
  by (simp add: from_variant_entry_def Let_def)

lemma loop_hash:
  "hash (from_variant_loop priv d) =
     (case vardict_lookup d ''hash'' of None \<Rightarrow> hash priv | Some v \<Rightarrow> g_variant_dup_string v)"
proof (induction d arbitrary: priv)
  case Nil
  then show ?case by (simp add: vardict_lookup_def)
next
  case (Cons e d)
  obtain k v where e: "e = (k, v)" by (cases e)
  show ?case
    by (simp add: Cons.IH e entry_hash vardict_lookup_def map_add_def split: option.splits)
qed


lemma loop_basename:
  "basename (from_variant_loop priv d) =
     (case vardict_lookup d ''filename'' of None \<Rightarrow> basename priv | Some v \<Rightarrow> g_variant_dup_string v)"
proof (induction d arbitrary: priv)
  case Nil
  then show ?case by (simp add: vardict_lookup_def)
next
  case (Cons e d)
  obtain k v where e: "e = (k, v)" by (cases e)
  show ?case
    by (simp add: Cons.IH e entry_basename vardict_lookup_def map_add_def split: option.splits)
qed

lemma loop_max_age:
  "max_age (from_variant_loop priv d) =
     (case vardict_lookup d ''max-age'' of None \<Rightarrow> max_age priv | Some v \<Rightarrow> g_variant_get_uint32 v)"
proof (induction d arbitrary: priv)
  case Nil
  then show ?case by (simp add: vardict_lookup_def)
next
  case (Cons e d)
  obtain k v where e: "e = (k, v)" by (cases e)
  show ?case
    by (simp add: Cons.IH e entry_max_age vardict_lookup_def map_add_def split: option.splits)
qed

lemma loop_share_limit:
  "share_limit (from_variant_loop priv d) =
     (case vardict_lookup d ''share-limit'' of None \<Rightarrow> share_limit priv | Some v \<Rightarrow> g_variant_get_uint32 v)"
proof (induction d arbitrary: priv)
  case Nil
  then show ?case by (simp add: vardict_lookup_def)
next
  case (Cons e d)
  obtain k v where e: "e = (k, v)" by (cases e)
  show ?case
    by (simp add: Cons.IH e entry_share_limit vardict_lookup_def map_add_def split: option.splits)
qed

lemma loop_share_count:
  "share_count (from_variant_loop priv d) =
     (case vardict_lookup d ''share-count'' of None \<Rightarrow> share_count priv | Some v \<Rightarrow> g_variant_get_uint32 v)"
proof (induction d arbitrary: priv)
  case Nil
  then show ?case by (simp add: vardict_lookup_def)
next
  case (Cons e d)
  obtain k v where e: "e = (k, v)" by (cases e)
  show ?case
    by (simp add: Cons.IH e entry_share_count vardict_lookup_def map_add_def split: option.splits)
qed

lemma loop_file_ctime:
  "file_obj (from_variant_loop priv d) = file_obj priv \<and> ctime (from_variant_loop priv d) = ctime priv"
  by (induction d arbitrary: priv) (simp_all add: entry_file_ctime)

lemma loop_more:
  "PassimItemPrivate.more (from_variant_loop priv d) = PassimItemPrivate.more priv"
  by (induction d arbitrary: priv) (simp_all add: from_variant_entry_def Let_def)

lemma lookup_well_typed:
  assumes "well_typed d" and "vardict_lookup d key = Some v"
  shows "well_typed_entry (key, v)"
proof -
  from assms(2) have "(key, v) \<in> set d"
    by (auto simp: vardict_lookup_def dest: map_of_SomeD)
  with assms(1) show ?thesis by (simp add: well_typed_def list_all_iff)
qed

lemma string_key_well_typed:
  assumes "well_typed d" and "key = ''hash'' \<or> key = ''filename''"
  shows "(case vardict_lookup d key of None \<Rightarrow> dflt | Some v \<Rightarrow> g_variant_dup_string v)
           = spec_string d key dflt"
proof (cases "vardict_lookup d key")
  case None
  then show ?thesis by (simp add: spec_string_def)
next
  case (Some v)
  with assms(1) have "well_typed_entry (key, v)" by (rule lookup_well_typed)
  with assms(2) Some show ?thesis by (cases v) (auto simp: spec_string_def)
qed

lemma uint32_key_well_typed:
  assumes "well_typed d" and "key = ''max-age'' \<or> key = ''share-limit'' \<or> key = ''share-count''"
  shows "(case vardict_lookup d key of None \<Rightarrow> dflt | Some v \<Rightarrow> g_variant_get_uint32 v)
           = spec_uint32 d key dflt"
proof (cases "vardict_lookup d key")
  case None
  then show ?thesis by (simp add: spec_uint32_def)
next
  case (Some v)
  with assms(1) have "well_typed_entry (key, v)" by (rule lookup_well_typed)
  with assms(2) Some show ?thesis by (cases v) (auto simp: spec_uint32_def)
qed

lemma from_variant_refines_spec:
  assumes "well_typed d"
  shows "passim_item_from_variant d = from_dict_spec d"
proof (rule PassimItemPrivate.equality)
  show "hash (passim_item_from_variant d) = hash (from_dict_spec d)"
    using string_key_well_typed [OF assms, of "''hash''" "hash passim_item_new"]
    by (simp add: passim_item_from_variant_def loop_hash new_fields from_dict_spec_def)
  show "basename (passim_item_from_variant d) = basename (from_dict_spec d)"
    using string_key_well_typed [OF assms, of "''filename''" "basename passim_item_new"]
    by (simp add: passim_item_from_variant_def loop_basename new_fields from_dict_spec_def)
  show "max_age (passim_item_from_variant d) = max_age (from_dict_spec d)"
    using uint32_key_well_typed [OF assms, of "''max-age''" "max_age passim_item_new"]
    by (simp add: passim_item_from_variant_def loop_max_age new_fields from_dict_spec_def)
  show "share_limit (passim_item_from_variant d) = share_limit (from_dict_spec d)"
    using uint32_key_well_typed [OF assms, of "''share-limit''" "share_limit passim_item_new"]
    by (simp add: passim_item_from_variant_def loop_share_limit new_fields from_dict_spec_def)
  show "share_count (passim_item_from_variant d) = share_count (from_dict_spec d)"
    using uint32_key_well_typed [OF assms, of "''share-count''" "share_count passim_item_new"]
    by (simp add: passim_item_from_variant_def loop_share_count new_fields from_dict_spec_def)
  show "file_obj (passim_item_from_variant d) = file_obj (from_dict_spec d)"
    by (simp add: passim_item_from_variant_def loop_file_ctime new_fields from_dict_spec_def)
  show "ctime (passim_item_from_variant d) = ctime (from_dict_spec d)"
    by (simp add: passim_item_from_variant_def loop_file_ctime new_fields from_dict_spec_def)
  show "PassimItemPrivate.more (passim_item_from_variant d) = PassimItemPrivate.more (from_dict_spec d)"
    by simp
qed

lemma entry_unknown_key:
  "fst e \<notin> set recognised_keys \<Longrightarrow> from_variant_entry priv e = priv"
  by (simp add: from_variant_entry_def g_strcmp0_zero_iff Let_def recognised_keys_def)

lemma loop_ignores_unknown:
  "from_variant_loop priv (filter (\<lambda>e. fst e \<in> set recognised_keys) d) = from_variant_loop priv d"
  by (induction d arbitrary: priv) (simp_all add: entry_unknown_key)

subsection \<open>The loader\<close>

lemma load_query_fails:
  "g_file_query_info fs (GFile filename) = Inl err \<Longrightarrow>
   passim_item_load_filename fs priv filename = (Inl err, priv\<lparr>file_obj := Some (GFile filename)\<rparr>)"
  by (simp add: passim_item_load_filename_def g_file_new_for_path_def passim_item_set_file_def)

lemma load_query_ok_hash_set:
  assumes "g_file_query_info fs (GFile filename) = Inr info" and "hash priv = Some h"
  shows "passim_item_load_filename fs priv filename =
     (Inr (), priv\<lparr>file_obj := Some (GFile filename),
                    ctime := g_file_info_get_creation_date_time info,
                    basename := (case basename priv of
                                   None \<Rightarrow> Some (g_path_get_basename filename)
                                 | Some b \<Rightarrow> Some b)\<rparr>)"
  using assms
  by (cases "basename priv")
     (simp_all add: passim_item_load_filename_def g_file_new_for_path_def passim_item_set_file_def)

lemma load_query_ok_hash_unset:
  assumes "g_file_query_info fs (GFile filename) = Inr info" and "hash priv = None"
  shows "passim_item_load_filename fs priv filename =
     (case passim_compute_checksum_for_filename fs filename of
        Inl err \<Rightarrow>
          (Inl err, priv\<lparr>file_obj := Some (GFile filename),
                         ctime := g_file_info_get_creation_date_time info,
                         basename := (case basename priv of
                                        None \<Rightarrow> Some (g_path_get_basename filename)
                                      | Some b \<Rightarrow> Some b)\<rparr>)
      | Inr h \<Rightarrow>
          (Inr (), priv\<lparr>file_obj := Some (GFile filename),
                         ctime := g_file_info_get_creation_date_time info,
                         basename := (case basename priv of
                                        None \<Rightarrow> Some (g_path_get_basename filename)
                                      | Some b \<Rightarrow> Some b),
                         hash := Some h\<rparr>))"
proof (cases "passim_compute_checksum_for_filename fs filename")
  case (Inl err)
  with assms show ?thesis
    by (cases "basename priv")
       (simp_all add: passim_item_load_filename_def g_file_new_for_path_def
          passim_item_set_file_def)
next
  case (Inr h)
  with assms show ?thesis
    by (cases "basename priv")
       (simp_all add: passim_item_load_filename_def g_file_new_for_path_def
          passim_item_set_file_def)
qed

lemma load_ctime:
  assumes "g_file_query_info fs (GFile filename) = Inr info"
  shows "ctime (snd (passim_item_load_filename fs priv filename)) = g_file_info_get_creation_date_time info"
proof (cases "hash priv")
  case None
  show ?thesis
    by (cases "passim_compute_checksum_for_filename fs filename")
       (simp_all add: load_query_ok_hash_unset [OF assms None])
next
  case (Some h)
  show ?thesis by (simp add: load_query_ok_hash_set [OF assms Some])
qed

lemma load_success_query:
  assumes "fst (passim_item_load_filename fs priv filename) = Inr ()"
  shows "\<exists>info. g_file_query_info fs (GFile filename) = Inr info"
proof (cases "g_file_query_info fs (GFile filename)")
  case (Inl err)
  with assms show ?thesis by (simp add: load_query_fails)
next
  case (Inr info)
  then show ?thesis by simp
qed

lemma load_basename_set:
  assumes "basename priv = Some b"
  shows "basename (snd (passim_item_load_filename fs priv filename)) = Some b"
proof (cases "g_file_query_info fs (GFile filename)")
  case (Inl err)
  with assms show ?thesis by (simp add: load_query_fails)
next
  case (Inr info)
  show ?thesis
  proof (cases "hash priv")
    case None
    with assms show ?thesis
      by (cases "passim_compute_checksum_for_filename fs filename")
         (simp_all add: load_query_ok_hash_unset [OF Inr None])
  next
    case (Some h)
    with assms show ?thesis by (simp add: load_query_ok_hash_set [OF Inr Some])
  qed
qed

lemma load_hash_set:
  assumes "hash priv = Some h"
  shows "hash (snd (passim_item_load_filename fs priv filename)) = Some h"
proof (cases "g_file_query_info fs (GFile filename)")
  case (Inl err)
  with assms show ?thesis by (simp add: load_query_fails)
next
  case (Inr info)
  with assms show ?thesis by (simp add: load_query_ok_hash_set [OF Inr assms])
qed

lemma load_basename_unset:
  assumes "basename priv = None" and "fst (passim_item_load_filename fs priv filename) = Inr ()"
  shows "basename (snd (passim_item_load_filename fs priv filename)) = Some (g_path_get_basename filename)"
proof -
  from assms(2) obtain info where q: "g_file_query_info fs (GFile filename) = Inr info"
    using load_success_query by blast
  show ?thesis
  proof (cases "hash priv")
    case None
    with assms(1) show ?thesis
      by (cases "passim_compute_checksum_for_filename fs filename")
         (simp_all add: load_query_ok_hash_unset [OF q None])
  next
    case (Some h)
    with assms(1) show ?thesis by (simp add: load_query_ok_hash_set [OF q Some])
  qed
qed

lemma load_hash_unset:
  assumes "hash priv = None" and "fst (passim_item_load_filename fs priv filename) = Inr ()"
  shows "\<exists>buf. g_file_get_contents fs filename = Inr buf
     \<and> hash (snd (passim_item_load_filename fs priv filename)) = Some (g_compute_checksum_for_data_SHA256 buf)"
proof -
  from assms(2) obtain info where q: "g_file_query_info fs (GFile filename) = Inr info"
    using load_success_query by blast
  show ?thesis
  proof (cases "g_file_get_contents fs filename")
    case (Inl err)
    with assms(2) show ?thesis
      by (simp add: load_query_ok_hash_unset [OF q assms(1)] passim_compute_checksum_for_filename_def)
  next
    case (Inr buf)
    then show ?thesis
      by (simp add: load_query_ok_hash_unset [OF q assms(1)] passim_compute_checksum_for_filename_def)
  qed
qed

lemma load_hello:
  "passim_item_load_filename fs_hello passim_item_new ''/tmp/hello.txt''
    = (Inr (), passim_item_new\<lparr>hash := Some (g_compute_checksum_for_data_SHA256 hello_bytes),
         basename := Some ''hello.txt'', file_obj := Some (GFile ''/tmp/hello.txt''),
         ctime := Some (GDateTime 1700000000000000)\<rparr>)"
  by (simp add: passim_item_load_filename_def g_file_new_for_path_def passim_item_set_file_def
      passim_compute_checksum_for_filename_def fs_hello_def
      passim_item_new_def passim_item_init_def zeroed_private_def g_path_get_basename_def)

subsection \<open>The digest\<close>

lemma round_len: "length s = 8 \<Longrightarrow> length (sha256_round s kw) = 8"
  by (cases kw) (auto simp: eval_nat_numeral length_Suc_conv Let_def)

lemma foldl_round_len: "length s = 8 \<Longrightarrow> length (foldl sha256_round s kws) = 8"
  by (induction kws arbitrary: s) (simp_all add: round_len)

lemma block_len: "length hs = 8 \<Longrightarrow> length (sha256_block hs block) = 8"
  by (simp add: sha256_block_def foldl_round_len)

lemma blocks_len: "length hs = 8 \<Longrightarrow> length (sha256_blocks hs bytes) = 8"
proof (induction hs bytes rule: sha256_blocks.induct)
  case (1 hs bytes)
  show ?case
  proof (cases "length bytes < 64")
    case True
    with "1.prems" show ?thesis by (subst sha256_blocks.simps) simp
  next
    case False
    have "length (sha256_blocks (sha256_block hs (take 64 bytes)) (drop 64 bytes)) = 8"
      using False "1.prems" by (intro "1.IH") (simp_all add: block_len)
    with False show ?thesis by (subst sha256_blocks.simps) simp
  qed
qed

lemma sha256_len: "length (sha256 msg) = 32"
proof -
  have "length (sha256_blocks sha256_init (sha256_pad msg)) = 8"
    by (rule blocks_len) (simp add: sha256_init_def)
  then obtain a b c d e f g h where "sha256_blocks sha256_init (sha256_pad msg) = [a, b, c, d, e, f, g, h]"
    by (auto simp: eval_nat_numeral length_Suc_conv)
  then show ?thesis by (simp add: sha256_def bytes_of_word32_def)
qed

lemma hex_len: "length (hex_of_bytes bs) = 2 * length bs"
  by (induction bs) (simp_all add: hex_of_bytes_def)

lemma hex_digit_mem: "n < 16 \<Longrightarrow> hex_digit n \<in> set ''0123456789abcdef''"
  unfolding hex_digit_def by (rule nth_mem) simp

lemma hex_chars: "set (hex_of_bytes bs) \<subseteq> set ''0123456789abcdef''"
proof -
  define S where "S = set ''0123456789abcdef''"
  have step: "hex_digit (unat b div 16) \<in> S \<and> hex_digit (unat b mod 16) \<in> S" for b :: guint8
  proof -
    have "unat b < 256" using unsigned_less [of b, where ?'a = nat] by simp
    then have "unat b div 16 < 16" and "unat b mod 16 < 16" by simp_all
    then show ?thesis unfolding S_def by (simp only: hex_digit_mem)
  qed
  have "set (hex_of_bytes bs) \<subseteq> S"
    by (induction bs) (simp_all add: hex_of_bytes_def step)
  then show ?thesis by (simp only: S_def)
qed

lemma digest_shape:
  "length (g_compute_checksum_for_data_SHA256 buf) = 64
   \<and> set (g_compute_checksum_for_data_SHA256 buf) \<subseteq> set ''0123456789abcdef''"
  by (simp only: g_compute_checksum_for_data_SHA256_def hex_len sha256_len hex_chars) simp


lemma sha256_hello:
  "g_compute_checksum_for_data_SHA256 hello_bytes
     = ''2cf24dba5fb0a30e26e83b2ac5b9e29e1b161e5c1fa7425e73043362938b9824''"
  by code_simp

section \<open>Construction and accessors\<close>

text \<open>
  C7. Default construction: a freshly constructed item has \<open>max_age = 86400\<close>,
  \<open>share_limit = 5\<close>, \<open>share_count = 0\<close>, and hash, basename, file and ctime unset.
\<close>

theorem default_construction:
  "passim_item_get_max_age passim_item_new = 86400
   \<and> passim_item_get_share_limit passim_item_new = 5
   \<and> passim_item_get_share_count passim_item_new = 0
   \<and> passim_item_get_hash passim_item_new = None
   \<and> passim_item_get_basename passim_item_new = None
   \<and> passim_item_get_file passim_item_new = None
   \<and> passim_item_get_ctime passim_item_new = None"
  by (simp add: passim_item_new_def passim_item_init_def zeroed_private_def
      passim_item_get_max_age_def passim_item_get_share_limit_def
      passim_item_get_share_count_def passim_item_get_hash_def
      passim_item_get_basename_def passim_item_get_file_def passim_item_get_ctime_def)

text \<open>
  C8. Idempotent string setters: calling \<open>passim_item_set_hash\<close> (or
  \<open>passim_item_set_basename\<close>) with a value equal to the current one, the unset value on
  an unset field included, leaves the whole item as it was.
\<close>

theorem string_setters_idempotent:
  "passim_item_set_hash priv (passim_item_get_hash priv) = priv
   \<and> passim_item_set_basename priv (passim_item_get_basename priv) = priv"
  by (simp add: passim_item_set_hash_def passim_item_set_basename_def
      passim_item_get_hash_def passim_item_get_basename_def g_strcmp0_zero_iff)

text \<open>
  C10. String setters unset on null: on an item whose hash (or basename) is set, the
  setter called with \<open>NULL\<close> clears the field, the getter then returns \<open>NULL\<close>, and no
  other field changes.
\<close>

theorem string_setters_unset_on_null:
  "(passim_item_get_hash priv \<noteq> None \<longrightarrow>
      passim_item_get_hash (passim_item_set_hash priv None) = None
      \<and> passim_item_set_hash priv None = priv\<lparr>hash := None\<rparr>)
   \<and> (passim_item_get_basename priv \<noteq> None \<longrightarrow>
      passim_item_get_basename (passim_item_set_basename priv None) = None
      \<and> passim_item_set_basename priv None = priv\<lparr>basename := None\<rparr>)"
  by (simp add: passim_item_set_hash_def passim_item_set_basename_def
      passim_item_get_hash_def passim_item_get_basename_def g_strcmp0_zero_iff g_strdup_def)

theorem string_setters_unset_on_null_witness:
  "passim_item_get_hash item_abc \<noteq> None
   \<and> passim_item_get_basename item_abc \<noteq> None
   \<and> passim_item_set_hash item_abc None = passim_item_new\<lparr>basename := Some ''f.bin''\<rparr>
   \<and> passim_item_set_basename item_abc None = passim_item_new\<lparr>hash := Some ''abc''\<rparr>"
  using string_setters_unset_on_null [of item_abc]
  by (simp add: passim_item_get_hash_def passim_item_get_basename_def item_abc_def new_fields)

section \<open>The checksum\<close>

text \<open>
  C2. \<open>passim_compute_checksum_for_filename\<close> on a readable file returns the SHA-256
  digest of all its bytes as 64 lowercase hexadecimal digits; the result depends on the
  bytes only, so equal content gives equal digests whatever the file and the file system;
  and for the five bytes \<open>hello\<close> it is
  \<open>2cf24dba5fb0a30e26e83b2ac5b9e29e1b161e5c1fa7425e73043362938b9824\<close>.
\<close>

theorem checksum_is_sha256_hex:
  "(g_file_get_contents fs filename = Inr buf \<longrightarrow>
      passim_compute_checksum_for_filename fs filename = Inr (hex_of_bytes (sha256 buf))
      \<and> length (hex_of_bytes (sha256 buf)) = 64
      \<and> set (hex_of_bytes (sha256 buf)) \<subseteq> set ''0123456789abcdef'')
   \<and> (g_file_get_contents fs filename = Inr buf \<and> g_file_get_contents fs' filename' = Inr buf \<longrightarrow>
      passim_compute_checksum_for_filename fs filename
        = passim_compute_checksum_for_filename fs' filename')
   \<and> (g_file_get_contents fs filename = Inr (map of_char ''hello'') \<longrightarrow>
      passim_compute_checksum_for_filename fs filename
        = Inr ''2cf24dba5fb0a30e26e83b2ac5b9e29e1b161e5c1fa7425e73043362938b9824'')"
proof (intro conjI impI)
  assume "g_file_get_contents fs filename = Inr buf"
  then show "passim_compute_checksum_for_filename fs filename = Inr (hex_of_bytes (sha256 buf))"
    by (simp add: passim_compute_checksum_for_filename_def g_compute_checksum_for_data_SHA256_def)
next
  show "length (hex_of_bytes (sha256 buf)) = 64"
    using digest_shape [of buf] by (simp add: g_compute_checksum_for_data_SHA256_def)
next
  show "set (hex_of_bytes (sha256 buf)) \<subseteq> set ''0123456789abcdef''"
    by (rule hex_chars)
next
  assume "g_file_get_contents fs filename = Inr buf \<and> g_file_get_contents fs' filename' = Inr buf"
  then show "passim_compute_checksum_for_filename fs filename
               = passim_compute_checksum_for_filename fs' filename'"
    by (simp add: passim_compute_checksum_for_filename_def)
next
  assume "g_file_get_contents fs filename = Inr (map of_char ''hello'')"
  then have "passim_compute_checksum_for_filename fs filename
               = Inr (g_compute_checksum_for_data_SHA256 hello_bytes)"
    by (simp only: passim_compute_checksum_for_filename_def hello_bytes_def sum.case)
  then show "passim_compute_checksum_for_filename fs filename
               = Inr ''2cf24dba5fb0a30e26e83b2ac5b9e29e1b161e5c1fa7425e73043362938b9824''"
    by (simp only: sha256_hello)
qed

theorem checksum_is_sha256_hex_witness:
  "g_file_get_contents fs_hello ''/tmp/hello.txt'' = Inr (map of_char ''hello'')
   \<and> passim_compute_checksum_for_filename fs_hello ''/tmp/hello.txt''
       = Inr ''2cf24dba5fb0a30e26e83b2ac5b9e29e1b161e5c1fa7425e73043362938b9824''"
proof -
  have c: "g_file_get_contents fs_hello ''/tmp/hello.txt'' = Inr (map of_char ''hello'')"
    by (simp add: fs_hello_def hello_bytes_def)
  from checksum_is_sha256_hex [of fs_hello "''/tmp/hello.txt''" "map of_char ''hello''"] c
  have "passim_compute_checksum_for_filename fs_hello ''/tmp/hello.txt''
          = Inr ''2cf24dba5fb0a30e26e83b2ac5b9e29e1b161e5c1fa7425e73043362938b9824''"
    by blast
  with c show ?thesis by (rule conjI)
qed

section \<open>The loader\<close>

text \<open>
  C4. When the metadata query of \<open>passim_item_load_filename\<close> fails (the path does not
  exist, say), the call fails with the error of the query, the file of the item is the
  handle for the path, and basename and hash are as they were before the call.
\<close>

theorem load_query_failure:
  assumes "g_file_query_info fs (g_file_new_for_path filename) = Inl err"
  shows "fst (passim_item_load_filename fs priv filename) = Inl err
     \<and> passim_item_get_file (snd (passim_item_load_filename fs priv filename))
         = Some (g_file_new_for_path filename)
     \<and> passim_item_get_basename (snd (passim_item_load_filename fs priv filename))
         = passim_item_get_basename priv
     \<and> passim_item_get_hash (snd (passim_item_load_filename fs priv filename))
         = passim_item_get_hash priv"
  using assms
  by (simp add: g_file_new_for_path_def load_query_fails passim_item_get_file_def
      passim_item_get_basename_def passim_item_get_hash_def)

theorem load_query_failure_witness:
  "g_file_query_info fs_hello (g_file_new_for_path ''/tmp/missing'') = Inl (GError G_IO_ERROR 1)
   \<and> fst (passim_item_load_filename fs_hello item_abc ''/tmp/missing'') = Inl (GError G_IO_ERROR 1)
   \<and> passim_item_get_file (snd (passim_item_load_filename fs_hello item_abc ''/tmp/missing''))
       = Some (GFile ''/tmp/missing'')
   \<and> passim_item_get_basename (snd (passim_item_load_filename fs_hello item_abc ''/tmp/missing''))
       = Some ''f.bin''
   \<and> passim_item_get_hash (snd (passim_item_load_filename fs_hello item_abc ''/tmp/missing''))
       = Some ''abc''"
proof -
  have q: "g_file_query_info fs_hello (g_file_new_for_path ''/tmp/missing'')
             = Inl (GError G_IO_ERROR 1)"
    by (simp add: fs_hello_def g_file_new_for_path_def)
  show ?thesis
    using q load_query_failure [OF q, of item_abc]
    by (simp add: g_file_new_for_path_def item_abc_def passim_item_get_basename_def
        passim_item_get_hash_def)
qed

text \<open>
  C5, as amended. When the metadata query fails, \<open>passim_item_load_filename\<close> fails with
  the error of the query and the ctime of the item is as it was. When the query returns a
  file info, the ctime of the item becomes the creation time that info carries, unset
  when it carries none, whatever the ctime was before and whether or not the checksum
  step that follows succeeds.
\<close>

theorem load_ctime_follows_query:
  "(g_file_query_info fs (g_file_new_for_path filename) = Inl err \<longrightarrow>
      fst (passim_item_load_filename fs priv filename) = Inl err
      \<and> passim_item_get_ctime (snd (passim_item_load_filename fs priv filename))
          = passim_item_get_ctime priv)
   \<and> (g_file_query_info fs (g_file_new_for_path filename) = Inr info \<longrightarrow>
      passim_item_get_ctime (snd (passim_item_load_filename fs priv filename))
        = g_file_info_get_creation_date_time info)"
  by (simp add: g_file_new_for_path_def load_query_fails load_ctime passim_item_get_ctime_def)

theorem load_ctime_follows_query_witness:
  "g_file_query_info fs_hello (g_file_new_for_path ''/tmp/missing'') = Inl (GError G_IO_ERROR 1)
   \<and> fst (passim_item_load_filename fs_hello passim_item_new ''/tmp/missing'')
       = Inl (GError G_IO_ERROR 1)
   \<and> passim_item_get_ctime (snd (passim_item_load_filename fs_hello passim_item_new ''/tmp/missing''))
       = None
   \<and> g_file_query_info fs_hello (g_file_new_for_path ''/tmp/hello.txt'')
       = Inr (GFileInfo (Some (GDateTime 1700000000000000)))
   \<and> passim_item_get_ctime (snd (passim_item_load_filename fs_hello passim_item_new ''/tmp/hello.txt''))
       = Some (GDateTime 1700000000000000)"
proof -
  have q1: "g_file_query_info fs_hello (g_file_new_for_path ''/tmp/missing'')
              = Inl (GError G_IO_ERROR 1)"
    by (simp add: fs_hello_def g_file_new_for_path_def)
  have q2: "g_file_query_info fs_hello (g_file_new_for_path ''/tmp/hello.txt'')
              = Inr (GFileInfo (Some (GDateTime 1700000000000000)))"
    by (simp add: fs_hello_def g_file_new_for_path_def)
  show ?thesis
    using q1 q2
      load_ctime_follows_query [of fs_hello "''/tmp/missing''" "GError G_IO_ERROR 1"
        passim_item_new "GFileInfo None"]
      load_ctime_follows_query [of fs_hello "''/tmp/hello.txt''" "GError G_IO_ERROR 1"
        passim_item_new "GFileInfo (Some (GDateTime 1700000000000000))"]
    by (simp add: passim_item_get_ctime_def new_fields)
qed

text \<open>
  Where the unamended reading of C5 fails: on a file system that reports no creation
  time for \<open>/tmp/hello.txt\<close>, loading that file into a fresh item succeeds and leaves the
  ctime unset.
\<close>

theorem load_succeeds_without_ctime:
  "fst (passim_item_load_filename fs_no_btime passim_item_new ''/tmp/hello.txt'') = Inr ()
   \<and> passim_item_get_ctime
        (snd (passim_item_load_filename fs_no_btime passim_item_new ''/tmp/hello.txt'')) = None"
  by (simp add: passim_item_load_filename_def g_file_new_for_path_def passim_item_set_file_def
      passim_compute_checksum_for_filename_def fs_no_btime_def passim_item_get_ctime_def
      new_fields)

text \<open>
  C6. Loader non-clobber: a basename set before \<open>passim_item_load_filename\<close> is the
  basename after it; an unset basename is, after a successful load, the final component
  of the path (\<open>g_path_get_basename\<close>, which for a path ending in a separator and a
  non-empty name without separator is that name); a hash set before the load is the
  hash after it; an unset hash is, after a successful load, what
  \<open>passim_compute_checksum_for_filename\<close> returns for the path.
\<close>

theorem loader_non_clobber:
  "(passim_item_get_basename priv = Some b \<longrightarrow>
      passim_item_get_basename (snd (passim_item_load_filename fs priv filename)) = Some b)
   \<and> (passim_item_get_basename priv = None
        \<and> fst (passim_item_load_filename fs priv filename) = Inr () \<longrightarrow>
      passim_item_get_basename (snd (passim_item_load_filename fs priv filename))
        = Some (g_path_get_basename filename))
   \<and> (name \<noteq> [] \<and> CHR ''/'' \<notin> set name \<longrightarrow> g_path_get_basename (dir @ ''/'' @ name) = name)
   \<and> (passim_item_get_hash priv = Some h \<longrightarrow>
      passim_item_get_hash (snd (passim_item_load_filename fs priv filename)) = Some h)
   \<and> (passim_item_get_hash priv = None
        \<and> fst (passim_item_load_filename fs priv filename) = Inr () \<longrightarrow>
      (\<exists>digest. passim_compute_checksum_for_filename fs filename = Inr digest
         \<and> passim_item_get_hash (snd (passim_item_load_filename fs priv filename)) = Some digest))"
proof (intro conjI impI)
  assume "passim_item_get_basename priv = Some b"
  then show "passim_item_get_basename (snd (passim_item_load_filename fs priv filename)) = Some b"
    by (simp add: passim_item_get_basename_def load_basename_set)
next
  assume "passim_item_get_basename priv = None
            \<and> fst (passim_item_load_filename fs priv filename) = Inr ()"
  then show "passim_item_get_basename (snd (passim_item_load_filename fs priv filename))
               = Some (g_path_get_basename filename)"
    by (simp add: passim_item_get_basename_def load_basename_unset)
next
  assume "name \<noteq> [] \<and> CHR ''/'' \<notin> set name"
  then show "g_path_get_basename (dir @ ''/'' @ name) = name"
    using basename_final_component(1) [of name dir] by blast
next
  assume "passim_item_get_hash priv = Some h"
  then show "passim_item_get_hash (snd (passim_item_load_filename fs priv filename)) = Some h"
    by (simp add: passim_item_get_hash_def load_hash_set)
next
  assume a: "passim_item_get_hash priv = None
               \<and> fst (passim_item_load_filename fs priv filename) = Inr ()"
  then obtain buf where "g_file_get_contents fs filename = Inr buf"
    and "hash (snd (passim_item_load_filename fs priv filename))
           = Some (g_compute_checksum_for_data_SHA256 buf)"
    using load_hash_unset [of priv fs filename] by (auto simp: passim_item_get_hash_def)
  then show "\<exists>digest. passim_compute_checksum_for_filename fs filename = Inr digest
      \<and> passim_item_get_hash (snd (passim_item_load_filename fs priv filename)) = Some digest"
    by (simp add: passim_compute_checksum_for_filename_def passim_item_get_hash_def)
qed

theorem loader_non_clobber_witness:
  "passim_item_get_basename passim_item_new = None
   \<and> passim_item_get_hash passim_item_new = None
   \<and> passim_item_load_filename fs_hello passim_item_new ''/tmp/hello.txt''
       = (Inr (),
          passim_item_new
            \<lparr>hash := Some ''2cf24dba5fb0a30e26e83b2ac5b9e29e1b161e5c1fa7425e73043362938b9824'',
             basename := Some ''hello.txt'',
             file_obj := Some (GFile ''/tmp/hello.txt''),
             ctime := Some (GDateTime 1700000000000000)\<rparr>)
   \<and> g_path_get_basename (''/tmp'' @ ''/'' @ ''hello.txt'') = ''hello.txt''
   \<and> passim_item_get_basename item_abc = Some ''f.bin''
   \<and> passim_item_get_hash item_abc = Some ''abc''
   \<and> passim_item_get_basename (snd (passim_item_load_filename fs_hello item_abc ''/tmp/hello.txt''))
       = Some ''f.bin''
   \<and> passim_item_get_hash (snd (passim_item_load_filename fs_hello item_abc ''/tmp/hello.txt''))
       = Some ''abc''"
proof -
  have unset: "passim_item_get_basename passim_item_new = None"
    "passim_item_get_hash passim_item_new = None"
    by (simp_all add: passim_item_get_basename_def passim_item_get_hash_def new_fields)
  have preset: "passim_item_get_basename item_abc = Some ''f.bin''"
    "passim_item_get_hash item_abc = Some ''abc''"
    by (simp_all add: passim_item_get_basename_def passim_item_get_hash_def item_abc_def)
  have name: "''hello.txt'' \<noteq> [] \<and> CHR ''/'' \<notin> set ''hello.txt''"
    by simp
  note fresh = loader_non_clobber [of passim_item_new b fs_hello "''/tmp/hello.txt''"
      "''hello.txt''" "''/tmp''" h]
  note kept = loader_non_clobber [of item_abc "''f.bin''" fs_hello "''/tmp/hello.txt''"
      "''hello.txt''" "''/tmp''" "''abc''"]
  show ?thesis
    using unset preset name fresh kept
    by (simp add: load_hello sha256_hello)
qed

section \<open>The codec\<close>




text \<open>
  C3, as amended. Round trip: for an item whose basename and hash are both set to valid
  UTF-8 strings, \<open>passim_item_from_variant\<close> of \<open>passim_item_to_variant\<close> of the item has
  the basename, hash, max_age, share_limit and share_count of the item (and file and
  ctime unset).
\<close>

theorem round_trip:
  assumes "passim_item_get_hash priv = Some h" and "passim_item_get_basename priv = Some b"
    and "g_utf8_validate h" and "g_utf8_validate b"
  shows "passim_item_get_basename (passim_item_from_variant (passim_item_to_variant priv))
         = passim_item_get_basename priv
     \<and> passim_item_get_hash (passim_item_from_variant (passim_item_to_variant priv))
         = passim_item_get_hash priv
     \<and> passim_item_get_max_age (passim_item_from_variant (passim_item_to_variant priv))
         = passim_item_get_max_age priv
     \<and> passim_item_get_share_limit (passim_item_from_variant (passim_item_to_variant priv))
         = passim_item_get_share_limit priv
     \<and> passim_item_get_share_count (passim_item_from_variant (passim_item_to_variant priv))
         = passim_item_get_share_count priv
     \<and> passim_item_from_variant (passim_item_to_variant priv)
         = priv\<lparr>file_obj := None, ctime := None\<rparr>"
proof -
  from assms have hb: "hash priv = Some h" "basename priv = Some b"
    by (simp_all add: passim_item_get_hash_def passim_item_get_basename_def)
  have "passim_item_from_variant (passim_item_to_variant priv)
          = priv\<lparr>file_obj := None, ctime := None\<rparr>"
    using hb assms(3,4) by (simp add: to_variant_set from_variant_five)
  then show ?thesis
    by (simp add: passim_item_get_hash_def passim_item_get_basename_def
        passim_item_get_max_age_def passim_item_get_share_limit_def
        passim_item_get_share_count_def)
qed

theorem round_trip_witness:
  "passim_item_get_hash item_abc = Some ''abc''
   \<and> passim_item_get_basename item_abc = Some ''f.bin''
   \<and> g_utf8_validate ''abc'' \<and> g_utf8_validate ''f.bin''
   \<and> passim_item_from_variant (passim_item_to_variant item_abc) = item_abc"
proof -
  have h: "passim_item_get_hash item_abc = Some ''abc''"
    by (simp add: passim_item_get_hash_def item_abc_def)
  have b: "passim_item_get_basename item_abc = Some ''f.bin''"
    by (simp add: passim_item_get_basename_def item_abc_def)
  have same: "item_abc\<lparr>file_obj := None, ctime := None\<rparr> = item_abc"
    by (simp add: item_abc_def passim_item_new_def passim_item_init_def zeroed_private_def)
  from round_trip [OF h b utf8_abc]
  have "passim_item_from_variant (passim_item_to_variant item_abc)
          = item_abc\<lparr>file_obj := None, ctime := None\<rparr>"
    by blast
  with same have "passim_item_from_variant (passim_item_to_variant item_abc) = item_abc"
    by simp
  with h b utf8_abc show ?thesis by blast
qed

text \<open>
  Where the unamended reading of C3 fails: the basename of \<open>item_latin1\<close> is set, and
  hash and basename are both set, but the basename is not UTF-8; the encoder adds no
  \<open>filename\<close> entry and the decoded item has no basename.
\<close>

theorem round_trip_loses_non_utf8_basename:
  "passim_item_get_hash item_latin1 = Some ''abc''
   \<and> passim_item_get_basename item_latin1 = Some [CHR 0x63, CHR 0xE9]
   \<and> passim_item_to_variant item_latin1 =
       [(''hash'', GVString ''abc''), (''max-age'', GVUint32 86400),
        (''share-limit'', GVUint32 5), (''share-count'', GVUint32 0)]
   \<and> passim_item_get_basename (passim_item_from_variant (passim_item_to_variant item_latin1))
       = None"
proof -
  have enc: "passim_item_to_variant item_latin1 =
       [(''hash'', GVString ''abc''), (''max-age'', GVUint32 86400),
        (''share-limit'', GVUint32 5), (''share-count'', GVUint32 0)]"
    by (simp add: to_variant_shape g_variant_new_string_def item_latin1_def new_fields
        utf8_abc not_utf8_latin1)
  have dec: "passim_item_get_basename (passim_item_from_variant
       [(''hash'', GVString ''abc''), (''max-age'', GVUint32 86400),
        (''share-limit'', GVUint32 5), (''share-count'', GVUint32 0)]) = None"
    by (simp add: passim_item_get_basename_def passim_item_from_variant_def entry_basename
        new_fields)
  have fields: "passim_item_get_hash item_latin1 = Some ''abc''"
    "passim_item_get_basename item_latin1 = Some [CHR 0x63, CHR 0xE9]"
    by (simp_all add: passim_item_get_hash_def passim_item_get_basename_def item_latin1_def)
  from dec have "passim_item_get_basename
      (passim_item_from_variant (passim_item_to_variant item_latin1)) = None"
    by (simp only: enc)
  with fields enc show ?thesis by blast
qed

text \<open>
  C9. Permissive decode: on a dictionary whose recognised keys carry values of their
  types, \<open>passim_item_from_variant\<close> returns the item the specification describes: the
  defaults, with the field of every recognised key that is present overwritten by its
  value. Entries with other keys change nothing. In particular the dictionary with
  \<open>hash\<close> as \<open>abc\<close> and \<open>unknown-key\<close> as 1 gives the default item with hash \<open>abc\<close>.
\<close>

theorem permissive_decode:
  assumes "well_typed d"
  shows "passim_item_from_variant d = from_dict_spec d
     \<and> passim_item_from_variant (filter (\<lambda>entry. fst entry \<in> set recognised_keys) d)
         = passim_item_from_variant d
     \<and> passim_item_from_variant [(''hash'', GVString ''abc''), (''unknown-key'', GVUint32 1)]
         = passim_item_new\<lparr>hash := Some ''abc''\<rparr>"
proof (intro conjI)
  show "passim_item_from_variant d = from_dict_spec d"
    using assms by (rule from_variant_refines_spec)
  show "passim_item_from_variant (filter (\<lambda>entry. fst entry \<in> set recognised_keys) d)
          = passim_item_from_variant d"
    by (simp only: passim_item_from_variant_def loop_ignores_unknown)
  show "passim_item_from_variant [(''hash'', GVString ''abc''), (''unknown-key'', GVUint32 1)]
          = passim_item_new\<lparr>hash := Some ''abc''\<rparr>"
    by (simp add: passim_item_from_variant_def from_variant_entry_def g_strcmp0_zero_iff)
qed

theorem permissive_decode_witness:
  "well_typed [(''hash'', GVString ''abc''), (''unknown-key'', GVUint32 1)]
   \<and> from_dict_spec [(''hash'', GVString ''abc''), (''unknown-key'', GVUint32 1)]
       = passim_item_new\<lparr>hash := Some ''abc''\<rparr>"
proof -
  have wt: "well_typed [(''hash'', GVString ''abc''), (''unknown-key'', GVUint32 1)]"
    by (simp add: well_typed_def)
  from permissive_decode [OF wt]
  have refines: "passim_item_from_variant [(''hash'', GVString ''abc''), (''unknown-key'', GVUint32 1)]
          = from_dict_spec [(''hash'', GVString ''abc''), (''unknown-key'', GVUint32 1)]"
    and decoded: "passim_item_from_variant [(''hash'', GVString ''abc''), (''unknown-key'', GVUint32 1)]
          = passim_item_new\<lparr>hash := Some ''abc''\<rparr>"
    by blast+
  have "from_dict_spec [(''hash'', GVString ''abc''), (''unknown-key'', GVUint32 1)]
          = passim_item_new\<lparr>hash := Some ''abc''\<rparr>"
    by (rule trans [OF refines [symmetric] decoded])
  with wt show ?thesis by (rule conjI)
qed

end
